theory Spec2Isabelle
  imports Main
begin

section \<open>Values, requests and responses\<close>

text \<open>
  The values that travel through \<^verbatim>\<open>server.js\<close>: request bodies, result rows and
  response bodies are JavaScript values. An object is an association list; a later
  binding of a key overrides an earlier one, as in \<^verbatim>\<open>JSON.parse\<close>.
\<close>

datatype jsval =
    JUndefined
  | JNull
  | JBool bool
  | JNum int
  | JStr string
  | JArr "jsval list"
  | JObj "(string \<times> jsval) list"

text \<open>
  Errors are values. \<open>DriverError\<close> is whatever \<^verbatim>\<open>pool.getConnection()\<close> or
  \<^verbatim>\<open>conn.query(...)\<close> rejects with; \<open>ReferenceError x\<close> is what evaluating the
  identifier \<open>x\<close> throws when nothing in scope binds it.
\<close>

datatype js_error = DriverError string | ReferenceError string

text \<open>The database: table name to rows. It is owned by the MariaDB collaborator.\<close>

type_synonym database = "(string \<times> jsval list) list"

text \<open>One entry of \<^verbatim>\<open>errors.array()\<close>: the field, the message, the offending value.\<close>

record validation_error =
  ve_field :: string
  ve_msg :: string
  ve_value :: jsval
  ve_location :: string

text \<open>
  What a handler reads of \<^verbatim>\<open>req\<close>: \<^verbatim>\<open>req.params.id\<close>, \<^verbatim>\<open>req.body\<close>, and the validation
  results that the \<^verbatim>\<open>body(..)\<close> chains attach to the request for \<^verbatim>\<open>validationResult\<close>.
\<close>

record request =
  params_id :: string
  body :: jsval
  contexts :: "validation_error list"

definition incoming :: "string \<Rightarrow> jsval \<Rightarrow> request" where
  "incoming i b = \<lparr>params_id = i, body = b, contexts = []\<rparr>"

text \<open>
  A response body is JSON (\<^verbatim>\<open>res.json(v)\<close>), the object \<^verbatim>\<open>{ errors: [...] }\<close> of the
  validation step, or a plain string (\<^verbatim>\<open>res.send('...')\<close>).
\<close>

datatype payload =
    JsonBody jsval
  | ErrorsBody "validation_error list"
  | TextBody string

record response =
  status :: nat
  content_type :: string
  payload :: payload

text \<open>
  How a route's run ends: a response was written, \<^verbatim>\<open>next(err)\<close> was called, or the
  async handler's promise was rejected with nothing written to \<^verbatim>\<open>res\<close>.
\<close>

datatype outcome = Sent response | Next js_error | Rejected js_error

fun response_of :: "outcome \<Rightarrow> response option" where
  "response_of (Sent r) = Some r"
| "response_of (Next err) = None"
| "response_of (Rejected err) = None"

section \<open>The pool, the database and the log as explicit state\<close>

text \<open>
  \<open>acquired\<close> counts resolved \<^verbatim>\<open>pool.getConnection()\<close> calls, \<open>released\<close> counts
  \<^verbatim>\<open>conn.release()\<close> calls, \<open>executed\<close> lists the SQL texts handed to \<^verbatim>\<open>conn.query\<close>,
  \<open>logged\<close> is what the error middleware wrote with \<^verbatim>\<open>console.error\<close>.
\<close>

record world =
  acquired :: nat
  released :: nat
  executed :: "string list"
  logged :: "js_error list"
  db :: database

definition world0 :: "database \<Rightarrow> world" where
  "world0 d = \<lparr>acquired = 0, released = 0, executed = [], logged = [], db = d\<rparr>"

text \<open>
  The collaborator's behaviour during one request: whether \<^verbatim>\<open>pool.getConnection()\<close>
  resolves, and what \<^verbatim>\<open>conn.query(sql)\<close> does to the database and returns.
\<close>

record env =
  pool_getConnection :: "js_error + unit"
  conn_query :: "database \<Rightarrow> string \<Rightarrow> (js_error + jsval list) \<times> database"

section \<open>Routes\<close>

datatype route =
    GetAgents
  | PostAgents
  | PatchAgent
  | PutAgent
  | DeleteAgent
  | GetCompanies
  | GetCustomers
  | GetOrders

text \<open>The parameter list each route's handler function declares.\<close>

fun handler_params :: "route \<Rightarrow> string list" where
  "handler_params GetAgents = [''req'', ''res'']"
| "handler_params PostAgents = [''req'', ''res'', ''next'']"
| "handler_params PatchAgent = [''req'', ''res'', ''next'']"
| "handler_params PutAgent = [''req'', ''res'', ''next'']"
| "handler_params DeleteAgent = [''req'', ''res'', ''next'']"
| "handler_params GetCompanies = [''req'', ''res'']"
| "handler_params GetCustomers = [''req'', ''res'']"
| "handler_params GetOrders = [''req'', ''res'']"

text \<open>The module-level \<^verbatim>\<open>const\<close> bindings of \<^verbatim>\<open>server.js\<close>.\<close>

definition module_bindings :: "string list" where
  "module_bindings =
    [''express'', ''app'', ''port'', ''body'', ''validationResult'', ''swaggerJSDoc'',
     ''swaggerUi'', ''cors'', ''swaggerDefinition'', ''mariadb'', ''pool'',
     ''commonSwaggerDefinition'', ''swaggerOptions'', ''swaggerSpec'', ''validateRequest'']"

text \<open>Inside a handler's \<^verbatim>\<open>catch (err)\<close> block: the names that are bound.\<close>

definition in_scope :: "route \<Rightarrow> string \<Rightarrow> bool" where
  "in_scope r x = (x \<in> set (''err'' # handler_params r @ module_bindings))"

text \<open>
  \<^verbatim>\<open>catch (err) { next(err); }\<close>. Calling \<^verbatim>\<open>next\<close> needs the identifier to be bound;
  where it is not, evaluating it throws a ReferenceError out of the async handler.
\<close>

definition catch_block :: "route \<Rightarrow> js_error \<Rightarrow> world \<Rightarrow> outcome \<times> world" where
  "catch_block r err w =
    (if in_scope r ''next'' then (Next err, w)
     else (Rejected (ReferenceError ''next''), w))"

section \<open>Validation\<close>

text \<open>
  \<^verbatim>\<open>body(f)\<close> selects \<^verbatim>\<open>req.body[f]\<close>; a body that is not an object, or lacks the key,
  gives \<^verbatim>\<open>undefined\<close>. \<^verbatim>\<open>.isString()\<close> of express-validator accepts exactly the values
  whose \<^verbatim>\<open>typeof\<close> is \<^verbatim>\<open>'string'\<close>, and reports \<^verbatim>\<open>'Invalid value'\<close> otherwise.
\<close>

definition select_field :: "jsval \<Rightarrow> string \<Rightarrow> jsval" where
  "select_field b f =
    (case b of
       JObj kvs \<Rightarrow> (case map_of (rev kvs) f of Some v \<Rightarrow> v | None \<Rightarrow> JUndefined)
     | _ \<Rightarrow> JUndefined)"

fun isString :: "jsval \<Rightarrow> bool" where
  "isString (JStr s) = True"
| "isString v = False"

definition body_isString :: "string \<Rightarrow> request \<Rightarrow> request" where
  "body_isString f req =
    (let v = select_field (body req) f in
     if isString v then req
     else req\<lparr>contexts := contexts req @
            [\<lparr>ve_field = f, ve_msg = ''Invalid value'', ve_value = v, ve_location = ''body''\<rparr>]\<rparr>)"

definition validationResult :: "request \<Rightarrow> validation_error list" where
  "validationResult req = contexts req"

text \<open>
  \<^verbatim>\<open>validateRequest\<close>: \<open>Some\<close> is the 400 response it writes, \<open>None\<close> is \<^verbatim>\<open>next()\<close>.
\<close>

definition validateRequest :: "request \<Rightarrow> response option" where
  "validateRequest req =
    (let errors = validationResult req in
     if errors \<noteq> [] then
       Some \<lparr>status = 400, content_type = ''application/json'', payload = ErrorsBody errors\<rparr>
     else None)"

text \<open>The fields each route declares with \<^verbatim>\<open>body(..).isString()\<close>, in order.\<close>

fun rules :: "route \<Rightarrow> string list" where
  "rules PostAgents = [''AGENT_CODE'', ''AGENT_NAME'']"
| "rules PatchAgent = [''AGENT_NAME'']"
| "rules PutAgent = [''AGENT_NAME'']"
| "rules r = []"

text \<open>Whether the route's middleware array ends with \<^verbatim>\<open>validateRequest\<close>.\<close>

fun validated :: "route \<Rightarrow> bool" where
  "validated PostAgents = True"
| "validated PatchAgent = True"
| "validated PutAgent = True"
| "validated r = False"

section \<open>Handlers\<close>

text \<open>
  The body shared by the four GET handlers. \<^verbatim>\<open>conn.release()\<close> stands after the query
  inside \<^verbatim>\<open>try\<close>; there is no \<^verbatim>\<open>finally\<close>, so a rejected query jumps over it.
\<close>

definition read_rows :: "env \<Rightarrow> route \<Rightarrow> string \<Rightarrow> world \<Rightarrow> outcome \<times> world" where
  "read_rows e r sql w =
    (case pool_getConnection e of
       Inl err \<Rightarrow> catch_block r err w
     | Inr conn \<Rightarrow>
         (let w1 = w\<lparr>acquired := acquired w + 1\<rparr>;
              (res, d) = conn_query e (db w1) sql;
              w2 = w1\<lparr>executed := executed w1 @ [sql], db := d\<rparr>
          in case res of
               Inl err \<Rightarrow> catch_block r err w2
             | Inr rows \<Rightarrow>
                 (Sent \<lparr>status = 200, content_type = ''application/json'',
                        payload = JsonBody (JArr rows)\<rparr>,
                  w2\<lparr>released := released w2 + 1\<rparr>)))"

text \<open>\<^verbatim>\<open>res.send(msg)\<close> with a string: status 200 unless set, HTML content type.\<close>

definition res_send :: "string \<Rightarrow> response" where
  "res_send msg = \<lparr>status = 200, content_type = ''text/html'', payload = TextBody msg\<rparr>"

text \<open>The SQL text of a route's handler, where it has one.\<close>

fun route_sql :: "route \<Rightarrow> string option" where
  "route_sql GetAgents = Some ''SELECT * FROM agents''"
| "route_sql GetCompanies = Some ''SELECT * FROM company''"
| "route_sql GetCustomers = Some ''SELECT * FROM customer''"
| "route_sql GetOrders = Some ''SELECT * FROM orders''"
| "route_sql r = None"

text \<open>
  The final handler of each route. The \<^verbatim>\<open>try\<close> block of a write handler holds the one
  statement \<^verbatim>\<open>res.send(..)\<close> and neither reads \<^verbatim>\<open>req\<close> nor touches the pool.
\<close>

fun handler :: "env \<Rightarrow> route \<Rightarrow> request \<Rightarrow> world \<Rightarrow> outcome \<times> world" where
  "handler e GetAgents req w = read_rows e GetAgents ''SELECT * FROM agents'' w"
| "handler e PostAgents req w = (Sent (res_send ''Agent created successfully''), w)"
| "handler e PatchAgent req w = (Sent (res_send ''Agent updated successfully''), w)"
| "handler e PutAgent req w = (Sent (res_send ''Agent replaced successfully''), w)"
| "handler e DeleteAgent req w = (Sent (res_send ''Agent deleted successfully''), w)"
| "handler e GetCompanies req w = read_rows e GetCompanies ''SELECT * FROM company'' w"
| "handler e GetCustomers req w = read_rows e GetCustomers ''SELECT * FROM customer'' w"
| "handler e GetOrders req w = read_rows e GetOrders ''SELECT * FROM orders'' w"

text \<open>
  A route's middleware array followed by its handler: the \<^verbatim>\<open>body(..)\<close> chains run in
  order, then \<^verbatim>\<open>validateRequest\<close> (where listed) either answers or passes on.
\<close>

definition handle :: "env \<Rightarrow> route \<Rightarrow> request \<Rightarrow> world \<Rightarrow> outcome \<times> world" where
  "handle e r req w =
    (let req' = fold body_isString (rules r) req in
     if validated r then
       (case validateRequest req' of
          Some resp \<Rightarrow> (Sent resp, w)
        | None \<Rightarrow> handler e r req' w)
     else handler e r req' w)"

section \<open>The application\<close>

text \<open>
  The layers in the order \<^verbatim>\<open>server.js\<close> registers them. Express hands an error given
  to \<^verbatim>\<open>next\<close> to the error-handling layers registered after the layer that raised it.
\<close>

datatype layer = ErrorLayer | DocsLayer | CorsLayer | RouteLayer route

definition app_stack :: "layer list" where
  "app_stack =
    [ErrorLayer, DocsLayer, CorsLayer,
     RouteLayer GetAgents, RouteLayer PostAgents, RouteLayer PatchAgent, RouteLayer PutAgent,
     RouteLayer DeleteAgent, RouteLayer GetCompanies, RouteLayer GetCustomers,
     RouteLayer GetOrders]"

definition layers_after :: "route \<Rightarrow> layer list \<Rightarrow> layer list" where
  "layers_after r ls = drop 1 (dropWhile (\<lambda>l. l \<noteq> RouteLayer r) ls)"

text \<open>The error-handling middleware: log, then a fixed 500 body.\<close>

definition error_middleware :: "js_error \<Rightarrow> world \<Rightarrow> outcome \<times> world" where
  "error_middleware err w =
    (Sent \<lparr>status = 500, content_type = ''application/json'',
           payload = JsonBody (JObj [(''error'', JStr ''Internal Server Error'')])\<rparr>,
     w\<lparr>logged := logged w @ [err]\<rparr>)"

definition serve :: "env \<Rightarrow> route \<Rightarrow> request \<Rightarrow> world \<Rightarrow> outcome \<times> world" where
  "serve e r req w =
    (case handle e r req w of
       (Next err, w') \<Rightarrow>
         (if ErrorLayer \<in> set (layers_after r app_stack) then error_middleware err w'
          else (Next err, w'))
     | (Sent resp, w') \<Rightarrow> (Sent resp, w')
     | (Rejected err, w') \<Rightarrow> (Rejected err, w'))"

text \<open>
  \<^verbatim>\<open>req.body\<close> is filled in by a body-parsing layer registered ahead of the routes
  and is \<^verbatim>\<open>undefined\<close> otherwise. Of the layers \<^verbatim>\<open>server.js\<close> registers (the error
  handler, the documentation UI, \<^verbatim>\<open>cors()\<close>, the routes) none parses a body.
\<close>

fun populates_body :: "layer \<Rightarrow> bool" where
  "populates_body ErrorLayer = False"
| "populates_body DocsLayer = False"
| "populates_body CorsLayer = False"
| "populates_body (RouteLayer r) = False"

text \<open>
  The request object a route's middleware array receives for an HTTP request with path
  parameter \<open>i\<close> whose entity, read as JSON, is \<open>sent\<close>.
\<close>

definition arrive :: "string \<Rightarrow> jsval \<Rightarrow> request" where
  "arrive i sent =
    incoming i (if filter populates_body app_stack = [] then JUndefined else sent)"

text \<open>The routes that read and the routes that write.\<close>

fun is_read :: "route \<Rightarrow> bool" where
  "is_read GetAgents = True"
| "is_read GetCompanies = True"
| "is_read GetCustomers = True"
| "is_read GetOrders = True"
| "is_read r = False"

fun is_write :: "route \<Rightarrow> bool" where
  "is_write PostAgents = True"
| "is_write PatchAgent = True"
| "is_write PutAgent = True"
| "is_write DeleteAgent = True"
| "is_write r = False"

text \<open>The confirmation text each write route sends.\<close>

fun confirmation :: "route \<Rightarrow> string" where
  "confirmation PostAgents = ''Agent created successfully''"
| "confirmation PatchAgent = ''Agent updated successfully''"
| "confirmation PutAgent = ''Agent replaced successfully''"
| "confirmation DeleteAgent = ''Agent deleted successfully''"
| "confirmation r = []"

text \<open>
  The violated rules of a body, as the specification words them: the declared fields
  that are missing or not a string, in declaration order, each with its message.
\<close>

definition violations :: "route \<Rightarrow> jsval \<Rightarrow> (string \<times> string) list" where
  "violations r b =
    map (\<lambda>f. (f, ''Invalid value'')) (filter (\<lambda>f. \<not> isString (select_field b f)) (rules r))"



section \<open>Sample collaborators\<close>

text \<open>
  A database server that answers \<^verbatim>\<open>SELECT * FROM t\<close> with the rows of table \<open>t\<close> and
  rejects the query when the table does not exist; a pool that hands out a
  connection; a pool that cannot reach the server.
\<close>

definition sql_table :: "string \<Rightarrow> string" where
  "sql_table sql =
    (if sql = ''SELECT * FROM agents'' then ''agents''
     else if sql = ''SELECT * FROM company'' then ''company''
     else if sql = ''SELECT * FROM customer'' then ''customer''
     else if sql = ''SELECT * FROM orders'' then ''orders''
     else [])"

definition select_all :: "database \<Rightarrow> string \<Rightarrow> (js_error + jsval list) \<times> database" where
  "select_all d sql =
    (case map_of d (sql_table sql) of
       Some rows \<Rightarrow> (Inr rows, d)
     | None \<Rightarrow> (Inl (DriverError ''table does not exist''), d))"

definition env_up :: env where
  "env_up = \<lparr>pool_getConnection = Inr (), conn_query = select_all\<rparr>"

definition env_down :: env where
  "env_down =
    \<lparr>pool_getConnection = Inl (DriverError ''connection refused''), conn_query = select_all\<rparr>"

definition no_tables :: database where
  "no_tables = []"

definition empty_tables :: database where
  "empty_tables = [(''agents'', []), (''company'', []), (''customer'', []), (''orders'', [])]"

section \<open>Helper lemmas\<close>

lemma fold_body_isString_body [simp]:
  "body (fold body_isString fs req) = body req"
  by (induction fs arbitrary: req) (simp_all add: body_isString_def Let_def)

lemma fold_body_isString_contexts:
  "contexts (fold body_isString fs req) =
     contexts req @
     map (\<lambda>f. \<lparr>ve_field = f, ve_msg = ''Invalid value'',
               ve_value = select_field (body req) f, ve_location = ''body''\<rparr>)
         (filter (\<lambda>f. \<not> isString (select_field (body req) f)) fs)"
  by (induction fs arbitrary: req) (simp_all add: body_isString_def Let_def)

lemma handler_write_frame:
  "is_write r \<Longrightarrow> handler e r req w = (Sent (res_send (confirmation r)), w)"
  by (cases r) simp_all

lemmas run_defs = serve_def handle_def validateRequest_def validationResult_def read_rows_def
  catch_block_def in_scope_def module_bindings_def layers_after_def app_stack_def
  error_middleware_def res_send_def incoming_def world0_def body_isString_def select_field_def
  Let_def

lemmas sample_defs = env_up_def env_down_def select_all_def sql_table_def no_tables_def
  empty_tables_def

text \<open>A write route either answers 400 from the validation step or confirms.\<close>

lemma handle_write:
  "is_write r \<Longrightarrow>
   handle e r req w =
     (if validated r \<and> contexts (fold body_isString (rules r) req) \<noteq> []
      then (Sent \<lparr>status = 400, content_type = ''application/json'',
                  payload = ErrorsBody (contexts (fold body_isString (rules r) req))\<rparr>, w)
      else (Sent (res_send (confirmation r)), w))"
  by (cases r) (simp_all add: handle_def validateRequest_def validationResult_def Let_def)

lemma serve_write:
  "is_write r \<Longrightarrow> serve e r req w = handle e r req w"
  by (simp add: serve_def handle_write)

lemma serve_Sent:
  "handle e r req w = (Sent resp, w') \<Longrightarrow> serve e r req w = (Sent resp, w')"
  by (simp add: serve_def)


text \<open>The three ways the shared GET body can run.\<close>

lemma read_rows_success:
  assumes "pool_getConnection e = Inr c" and "conn_query e (db w) sql = (Inr rows, d)"
  shows "read_rows e r sql w =
    (Sent \<lparr>status = 200, content_type = ''application/json'', payload = JsonBody (JArr rows)\<rparr>,
     w\<lparr>acquired := acquired w + 1, executed := executed w @ [sql], db := d,
       released := released w + 1\<rparr>)"
  using assms by (simp add: read_rows_def Let_def)

lemma read_rows_query_error:
  assumes "pool_getConnection e = Inr c" and "conn_query e (db w) sql = (Inl err, d)"
  shows "read_rows e r sql w =
    catch_block r err (w\<lparr>acquired := acquired w + 1, executed := executed w @ [sql], db := d\<rparr>)"
  using assms by (simp add: read_rows_def Let_def)

lemma read_rows_no_connection:
  assumes "pool_getConnection e = Inl err"
  shows "read_rows e r sql w = catch_block r err w"
  using assms by (simp add: read_rows_def)

lemma read_rows_executed:
  "executed (snd (read_rows e r sql w)) =
     executed w @ (case pool_getConnection e of Inl err \<Rightarrow> [] | Inr c \<Rightarrow> [sql])"
  by (simp add: read_rows_def catch_block_def Let_def split: sum.splits prod.splits)

lemma serve_snd_executed:
  "executed (snd (serve e r req w)) = executed (snd (handle e r req w))"
  by (simp add: serve_def error_middleware_def split: prod.splits outcome.splits)

text \<open>No handler reads the request; the validation step reads the body only.\<close>

lemma handler_ignores_request:
  "handler e r req w = handler e r (incoming [] JUndefined) w"
  by (cases r) simp_all

lemma handle_ignores_id:
  "handle e r (req\<lparr>params_id := i\<rparr>) w = handle e r req w"
proof -
  have c: "contexts (fold body_isString (rules r) (req\<lparr>params_id := i\<rparr>)) =
           contexts (fold body_isString (rules r) req)"
    by (simp add: fold_body_isString_contexts)
  have h: "handler e r (fold body_isString (rules r) (req\<lparr>params_id := i\<rparr>)) w =
           handler e r (fold body_isString (rules r) req) w"
    by (subst handler_ignores_request) (simp add: handler_ignores_request [symmetric])
  show ?thesis
    unfolding handle_def validateRequest_def validationResult_def Let_def
    by (simp only: c h)
qed

section \<open>Connection pairing on the read routes\<close>

text \<open>
  C1. On a read route a connection taken from the pool is to be released exactly once
  on every exit path, the path where the query raises included. The GET /agents handler
  breaks this: with the pool up and the \<open>agents\<close> table missing, the query is
  rejected, control jumps from \<^verbatim>\<open>conn.query\<close> to \<^verbatim>\<open>catch\<close>, and \<^verbatim>\<open>conn.release()\<close> is
  never reached. One connection acquired, none released.
\<close>

theorem get_agents_query_error_leaks_connection:
  "acquired (snd (serve env_up GetAgents (incoming [] JUndefined) (world0 no_tables))) = 1 \<and>
   released (snd (serve env_up GetAgents (incoming [] JUndefined) (world0 no_tables))) = 0 \<and>
   executed (snd (serve env_up GetAgents (incoming [] JUndefined) (world0 no_tables))) =
     [''SELECT * FROM agents'']"
  by (simp add: run_defs sample_defs)

section \<open>Error forwarding on the read routes\<close>

text \<open>
  C2. An error raised by connection acquisition or by the query on a read route is to
  reach the error-handling middleware, and the client is to get its 500 body. The GET
  handlers declare \<^verbatim>\<open>(req, res)\<close> only, so \<^verbatim>\<open>next\<close> in their \<^verbatim>\<open>catch\<close> block is unbound:
  on GET /companies with the \<open>company\<close> table missing, and with the pool down, the
  run ends in a rejected promise carrying a ReferenceError, no response is written and
  the error middleware logs nothing.
\<close>

theorem get_companies_error_never_forwarded:
  "serve env_up GetCompanies (incoming [] JUndefined) (world0 no_tables) =
     (Rejected (ReferenceError ''next''),
      \<lparr>acquired = 1, released = 0, executed = [''SELECT * FROM company''], logged = [],
       db = no_tables\<rparr>) \<and>
   serve env_down GetCompanies (incoming [] JUndefined) (world0 no_tables) =
     (Rejected (ReferenceError ''next''), world0 no_tables) \<and>
   response_of (fst (serve env_up GetCompanies (incoming [] JUndefined) (world0 no_tables))) =
     None"
  by (simp add: run_defs sample_defs)

section \<open>Validation failures\<close>



section \<open>Queries per route\<close>

text \<open>
  C4 as stated has every request on a GET route execute exactly one SELECT. With the
  pool unable to hand out a connection, GET /agents executes none.
\<close>

theorem get_agents_pool_down_runs_no_query:
  "route_sql GetAgents = Some ''SELECT * FROM agents'' \<and>
   executed (snd (serve env_down GetAgents (incoming [] JUndefined) (world0 empty_tables))) = []"
  by (simp add: run_defs sample_defs)

text \<open>
  C4, amended. A request executes at most one query, fixed by its route: a GET route
  hands its own unparameterized SELECT to the connection exactly once when a connection
  was acquired and runs nothing when acquisition failed; the four SELECT texts are
  pairwise different; POST, PATCH, PUT and DELETE on agents have no query and run none.
\<close>

theorem queries_fixed_by_route:
  "executed (snd (serve e r req w)) =
     executed w @
       (case route_sql r of
          None \<Rightarrow> []
        | Some sql \<Rightarrow> (case pool_getConnection e of Inl err \<Rightarrow> [] | Inr c \<Rightarrow> [sql])) \<and>
   distinct (map route_sql [GetAgents, GetCompanies, GetCustomers, GetOrders]) \<and>
   map route_sql [GetAgents, GetCompanies, GetCustomers, GetOrders] =
     [Some ''SELECT * FROM agents'', Some ''SELECT * FROM company'',
      Some ''SELECT * FROM customer'', Some ''SELECT * FROM orders''] \<and>
   map route_sql [PostAgents, PatchAgent, PutAgent, DeleteAgent] = [None, None, None, None]"
proof -
  have "executed (snd (handle e r req w)) =
     executed w @
       (case route_sql r of
          None \<Rightarrow> []
        | Some sql \<Rightarrow> (case pool_getConnection e of Inl err \<Rightarrow> [] | Inr c \<Rightarrow> [sql]))"
    by (cases r)
       (simp_all add: handle_def validateRequest_def validationResult_def Let_def
          read_rows_executed)
  then show ?thesis
    by (simp add: serve_snd_executed)
qed

section \<open>The write stubs\<close>

text \<open>
  C5. A request to a write route that passes the route's declared rules is to be
  answered with status 200 and the route's fixed confirmation text. On POST, PATCH and
  PUT the code breaks this. The client sends a body in which every declared field is a
  string, so no rule is violated; the route still sees \<^verbatim>\<open>req.body\<close> undefined, every
  \<^verbatim>\<open>body(..).isString()\<close> chain fails, and \<^verbatim>\<open>validateRequest\<close> answers 400 before the
  handler's \<^verbatim>\<open>res.send\<close> is reached.
\<close>

theorem valid_post_body_answered_400:
  "violations PostAgents
     (JObj [(''AGENT_CODE'', JStr ''A001''), (''AGENT_NAME'', JStr ''Ann'')]) = [] \<and>
   serve env_up PostAgents
     (arrive [] (JObj [(''AGENT_CODE'', JStr ''A001''), (''AGENT_NAME'', JStr ''Ann'')]))
     (world0 empty_tables) =
     (Sent \<lparr>status = 400, content_type = ''application/json'',
            payload = ErrorsBody
              [\<lparr>ve_field = ''AGENT_CODE'', ve_msg = ''Invalid value'', ve_value = JUndefined,
                ve_location = ''body''\<rparr>,
               \<lparr>ve_field = ''AGENT_NAME'', ve_msg = ''Invalid value'', ve_value = JUndefined,
                ve_location = ''body''\<rparr>]\<rparr>,
      world0 empty_tables) \<and>
   violations PatchAgent (JObj [(''AGENT_NAME'', JStr ''Ann'')]) = [] \<and>
   map_option status (response_of (fst (serve env_up PatchAgent
     (arrive ''3'' (JObj [(''AGENT_NAME'', JStr ''Ann'')])) (world0 empty_tables)))) = Some 400 \<and>
   violations PutAgent (JObj [(''AGENT_NAME'', JStr ''Ann'')]) = [] \<and>
   map_option status (response_of (fst (serve env_up PutAgent
     (arrive ''3'' (JObj [(''AGENT_NAME'', JStr ''Ann'')])) (world0 empty_tables)))) = Some 400"
  by (simp add: run_defs arrive_def violations_def)

section \<open>Reading an empty table\<close>

text \<open>
  C6. GET /agents against an \<open>agents\<close> table with zero rows (a connection is handed
  out and the SELECT returns no rows) is answered with status 200, a JSON content type
  and the empty array.
\<close>

theorem get_agents_empty_table:
  assumes "pool_getConnection e = Inr ()"
    and "fst (conn_query e (db w) ''SELECT * FROM agents'') = Inr []"
  shows "fst (serve e GetAgents req w) =
           Sent \<lparr>status = 200, content_type = ''application/json'',
                 payload = JsonBody (JArr [])\<rparr>"
proof -
  obtain d where q: "conn_query e (db w) ''SELECT * FROM agents'' = (Inr [], d)"
    using assms(2) by (cases "conn_query e (db w) ''SELECT * FROM agents''") simp
  have "handle e GetAgents req w =
      (Sent \<lparr>status = 200, content_type = ''application/json'', payload = JsonBody (JArr [])\<rparr>,
       w\<lparr>acquired := acquired w + 1, executed := executed w @ [''SELECT * FROM agents''],
         db := d, released := released w + 1\<rparr>)"
    by (simp add: handle_def read_rows_success [OF assms(1) q])
  then show ?thesis
    by (simp add: serve_Sent)
qed

text \<open>C6 with the pool up and four empty tables.\<close>

theorem get_agents_empty_table_witness:
  "pool_getConnection env_up = Inr () \<and>
   fst (conn_query env_up (db (world0 empty_tables)) ''SELECT * FROM agents'') = Inr [] \<and>
   fst (serve env_up GetAgents (incoming [] JUndefined) (world0 empty_tables)) =
     Sent \<lparr>status = 200, content_type = ''application/json'', payload = JsonBody (JArr [])\<rparr>"
proof -
  have a: "pool_getConnection env_up = Inr ()"
    by (simp add: env_up_def)
  have b: "fst (conn_query env_up (db (world0 empty_tables)) ''SELECT * FROM agents'') = Inr []"
    by (simp add: sample_defs world0_def)
  show ?thesis
    using get_agents_empty_table [OF a b, of "incoming [] JUndefined"] a b by simp
qed

section \<open>Frame of the write routes\<close>

text \<open>
  C8. A request to a write route leaves the pool counters, the executed queries, the
  log and the database exactly as they were, whatever the request carries; only the
  response is produced.
\<close>

theorem write_routes_touch_nothing:
  assumes "is_write r"
  shows "snd (serve e r req w) = w \<and>
         acquired (snd (serve e r req w)) = acquired w \<and>
         executed (snd (serve e r req w)) = executed w \<and>
         db (snd (serve e r req w)) = db w"
  by (simp add: serve_write [OF assms] handle_write [OF assms])

text \<open>C8 at PATCH /agents/3 with a valid body.\<close>

theorem write_routes_touch_nothing_witness:
  "snd (serve env_up PatchAgent (incoming ''3'' (JObj [(''AGENT_NAME'', JStr ''Bo'')]))
        (world0 empty_tables)) = world0 empty_tables \<and>
   acquired (snd (serve env_up PatchAgent (incoming ''3'' (JObj [(''AGENT_NAME'', JStr ''Bo'')]))
        (world0 empty_tables))) = 0 \<and>
   db (snd (serve env_up PatchAgent (incoming ''3'' (JObj [(''AGENT_NAME'', JStr ''Bo'')]))
        (world0 empty_tables))) = empty_tables"
  using write_routes_touch_nothing
    [of PatchAgent env_up "incoming ''3'' (JObj [(''AGENT_NAME'', JStr ''Bo'')])"
      "world0 empty_tables"]
  by (simp add: world0_def)

section \<open>DELETE /agents/:id\<close>

text \<open>
  C9. Whatever the id, the body, the collaborators and the database, DELETE /agents/:id
  ends with the response 200 and the text \<^verbatim>\<open>Agent deleted successfully\<close>: the run never
  ends in \<^verbatim>\<open>next(err)\<close> or a rejection, so no 500 and no 404 is produced.
\<close>

theorem delete_agent_always_confirms:
  "serve e DeleteAgent req w =
     (Sent \<lparr>status = 200, content_type = ''text/html'',
            payload = TextBody ''Agent deleted successfully''\<rparr>, w)"
  by (simp add: serve_def handle_def res_send_def)

section \<open>The id path parameter\<close>

text \<open>
  C10. On PATCH, PUT and DELETE /agents/:id two requests that differ only in the id
  (any strings, integer or not) get the same response and leave the same state.
\<close>

theorem stub_routes_ignore_id:
  "serve e PatchAgent (req\<lparr>params_id := i1\<rparr>) w =
     serve e PatchAgent (req\<lparr>params_id := i2\<rparr>) w \<and>
   serve e PutAgent (req\<lparr>params_id := i1\<rparr>) w =
     serve e PutAgent (req\<lparr>params_id := i2\<rparr>) w \<and>
   serve e DeleteAgent (req\<lparr>params_id := i1\<rparr>) w =
     serve e DeleteAgent (req\<lparr>params_id := i2\<rparr>) w"
  by (simp add: serve_def handle_ignores_id)

end
